theory Spec2Isabelle
  imports Main "HOL-Library.Char_ord" "HOL-Library.List_Lexorder" "HOL-Library.Product_Lexorder"
    "HOL-Library.Multiset"
begin

section \<open>Python values and strings\<close>

text \<open>
  Table and column names are Python \<open>str\<close> values, modelled as \<open>string\<close>. Python orders
  strings by code point, a proper prefix first; this is the lexicographic order of
  \<open>HOL-Library.List_Lexorder\<close> over the character order of \<open>HOL-Library.Char_ord\<close>.
\<close>

datatype py_error = KeyError string | TypeError | ValueError | MergeError

text \<open>\<open>", ".join(xs)\<close> and the other uses of \<open>str.join\<close>.\<close>

fun py_join :: "string \<Rightarrow> string list \<Rightarrow> string" where
  "py_join sep [] = []"
| "py_join sep [x] = x"
| "py_join sep (x # y # ys) = x @ sep @ py_join sep (y # ys)"

text \<open>Decimal rendering of a Python \<open>int\<close>, as \<open>str\<close> and f-strings produce it.\<close>

definition digit_char :: "nat \<Rightarrow> char" where
  "digit_char d = ''0123456789'' ! d"

fun str_nat :: "nat \<Rightarrow> string" where
  "str_nat n = (if n < 10 then [digit_char n] else str_nat (n div 10) @ [digit_char (n mod 10)])"

declare str_nat.simps [simp del]

definition str_int :: "int \<Rightarrow> string" where
  "str_int i = (if i < 0 then CHR ''-'' # str_nat (nat (- i)) else str_nat (nat i))"

text \<open>
  The \<open>Default\<close> entry of a \<open>SHOW COLUMNS\<close> row is Python \<open>None\<close> or a \<open>str\<close>:
  \<open>string option\<close>. \<open>str(None)\<close> is the four characters \<open>None\<close>; \<open>str\<close> of a string is
  the string itself. An f-string field renders the same way.
\<close>

fun str_default :: "string option \<Rightarrow> string" where
  "str_default None = ''None''"
| "str_default (Some s) = s"

section \<open>The two database instances\<close>

text \<open>
  One row of \<open>SHOW COLUMNS FROM t\<close>, as the dictionary cursor returns it: the keys
  \<open>Field\<close>, \<open>Type\<close>, \<open>Null\<close>, \<open>Key\<close>, \<open>Default\<close>, \<open>Extra\<close>.
\<close>

record column =
  c_Field :: string
  c_Type :: string
  c_Null :: string
  c_Key :: string
  c_Default :: "string option"
  c_Extra :: string

text \<open>
  A cell of a \<open>pandas\<close> data frame read by \<open>pd.read_sql\<close>: \<open>None\<close>, the float \<open>NaN\<close>, an
  integer or a string. (Floating-point cells other than \<open>NaN\<close> are outside the model.)
\<close>

datatype pyval = PNone | PNaN | PInt int | PStr string

text \<open>A data frame: its column labels and its rows, each row aligned with the labels.\<close>

record dataframe =
  df_columns :: "string list"
  df_rows :: "pyval list list"

text \<open>
  A connection is modelled by what its queries answer. \<open>Inl msg\<close> is a query that raises
  \<open>mysql.connector.Error\<close> (for \<open>select_all\<close>: any exception inside \<open>pd.read_sql\<close>) with
  message \<open>msg\<close>.
\<close>

record conn =
  show_tables :: "string + string list"
  show_columns :: "string \<Rightarrow> string + column list"
  show_keys :: "string \<Rightarrow> string + string list"
  select_all :: "string \<Rightarrow> string + dataframe"

text \<open>
  Each of the four fetch functions returns its value together with the lines it prints.
\<close>

definition get_tables :: "conn \<Rightarrow> string list \<times> string list" where
  "get_tables connection =
     (case show_tables connection of
        Inr tables \<Rightarrow> (tables, [])
      | Inl err \<Rightarrow> ([], [''Error fetching tables: '' @ err]))"

definition get_table_schema :: "conn \<Rightarrow> string \<Rightarrow> column list option \<times> string list" where
  "get_table_schema connection table_name =
     (case show_columns connection table_name of
        Inr cols \<Rightarrow> (Some cols, [])
      | Inl err \<Rightarrow> (None, [''Error getting schema for table '' @ table_name @ '': '' @ err]))"

definition get_primary_keys :: "conn \<Rightarrow> string \<Rightarrow> string list \<times> string list" where
  "get_primary_keys connection table_name =
     (case show_keys connection table_name of
        Inr keys \<Rightarrow> (keys, [])
      | Inl err \<Rightarrow> ([], [''Error getting primary keys for table '' @ table_name @ '': '' @ err]))"

definition get_table_data :: "conn \<Rightarrow> string \<Rightarrow> dataframe option \<times> string list" where
  "get_table_data connection table_name =
     (case select_all connection table_name of
        Inr df \<Rightarrow> (Some df, [])
      | Inl e \<Rightarrow> (None, [''Error fetching data from table '' @ table_name @ '': '' @ e]))"

section \<open>Table set comparison: \<open>compare_schemas\<close>\<close>

text \<open>One entry of \<open>schema_report\<close>: the keys \<open>Table\<close>, \<open>Instance 1\<close>, \<open>Instance 2\<close>, \<open>Difference\<close>.\<close>

record table_row =
  tr_Table :: string
  tr_Instance1 :: string
  tr_Instance2 :: string
  tr_Difference :: string

definition only_in_instance1 :: "string set \<Rightarrow> string set \<Rightarrow> string set" where
  "only_in_instance1 tables1 tables2 = tables1 - tables2"

definition only_in_instance2 :: "string set \<Rightarrow> string set \<Rightarrow> string set" where
  "only_in_instance2 tables1 tables2 = tables2 - tables1"

definition common_tables :: "string set \<Rightarrow> string set \<Rightarrow> string set" where
  "common_tables tables1 tables2 = tables1 \<inter> tables2"

definition schema_report :: "string set \<Rightarrow> string set \<Rightarrow> table_row list" where
  "schema_report tables1 tables2 =
     map (\<lambda>table. \<lparr>tr_Table = table, tr_Instance1 = ''Present'', tr_Instance2 = ''Missing'',
                    tr_Difference = ''Table missing in Instance 2''\<rparr>)
         (sorted_list_of_set (only_in_instance1 tables1 tables2))
     @ map (\<lambda>table. \<lparr>tr_Table = table, tr_Instance1 = ''Missing'', tr_Instance2 = ''Present'',
                    tr_Difference = ''Table missing in Instance 1''\<rparr>)
         (sorted_list_of_set (only_in_instance2 tables1 tables2))
     @ map (\<lambda>table. \<lparr>tr_Table = table, tr_Instance1 = ''Present'', tr_Instance2 = ''Present'',
                    tr_Difference = ''None''\<rparr>)
         (sorted_list_of_set (common_tables tables1 tables2))"

text \<open>
  \<open>compare_schemas\<close> returns the report it writes and the set of common tables. With no
  table on either side it returns early: no report, and an empty result. (The console
  table printed by \<open>tabulate\<close> is not modelled.)
\<close>

definition compare_schemas :: "conn \<Rightarrow> conn \<Rightarrow> table_row list \<times> string set" where
  "compare_schemas conn1 conn2 =
     (let tables1 = set (fst (get_tables conn1));
          tables2 = set (fst (get_tables conn2))
      in if tables1 = {} \<and> tables2 = {} then ([], {})
         else (schema_report tables1 tables2, common_tables tables1 tables2))"

section \<open>Column comparison: \<open>compare_columns\<close>\<close>

text \<open>
  One entry of \<open>column_reports\<close>. The \<open>Default\<close> entries hold the raw value of the
  descriptor (\<open>None\<close> or a string) or the string \<open>N/A\<close>.
\<close>

record column_row =
  cr_Table :: string
  cr_Column :: string
  cr_Status :: string
  cr_Type1 :: string
  cr_Null1 :: string
  cr_Key1 :: string
  cr_Default1 :: "string option"
  cr_Extra1 :: string
  cr_Type2 :: string
  cr_Null2 :: string
  cr_Key2 :: string
  cr_Default2 :: "string option"
  cr_Extra2 :: string
  cr_Difference :: string

text \<open>\<open>{col['Field']: col for col in columns}\<close>: a later row with the same name wins.\<close>

definition columns_dict :: "column list \<Rightarrow> (string \<rightharpoonup> column)" where
  "columns_dict columns = foldl (\<lambda>d col. d(c_Field col \<mapsto> col)) Map.empty columns"

text \<open>The list \<open>differences\<close> built for a column present on both sides.\<close>

definition differences :: "column \<Rightarrow> column \<Rightarrow> string list" where
  "differences col1 col2 =
     (if c_Type col1 \<noteq> c_Type col2
      then [''Type('' @ c_Type col1 @ '' vs '' @ c_Type col2 @ '')''] else [])
     @ (if c_Null col1 \<noteq> c_Null col2
      then [''Null('' @ c_Null col1 @ '' vs '' @ c_Null col2 @ '')''] else [])
     @ (if c_Key col1 \<noteq> c_Key col2
      then [''Key('' @ c_Key col1 @ '' vs '' @ c_Key col2 @ '')''] else [])
     @ (if str_default (c_Default col1) \<noteq> str_default (c_Default col2)
      then [''Default('' @ str_default (c_Default col1) @ '' vs ''
              @ str_default (c_Default col2) @ '')''] else [])
     @ (if c_Extra col1 \<noteq> c_Extra col2
      then [''Extra('' @ c_Extra col1 @ '' vs '' @ c_Extra col2 @ '')''] else [])"

text \<open>
  The body of the loop over \<open>sorted(all_columns)\<close>: the records appended for one column name.
  \<open>col1\<close> and \<open>col2\<close> are the results of \<open>dict.get\<close>; a fetched row is a non-empty
  dictionary, hence true in a condition, and \<open>None\<close> is false. With both \<open>None\<close> the \<open>else\<close>
  branch subscripts \<open>None\<close>, a \<open>TypeError\<close>.
\<close>

fun compare_column :: "string \<Rightarrow> string \<Rightarrow> column option \<Rightarrow> column option
    \<Rightarrow> py_error + column_row list" where
  "compare_column table col (Some col1) None =
     Inr [\<lparr>cr_Table = table, cr_Column = col, cr_Status = ''Only in Instance 1'',
           cr_Type1 = c_Type col1, cr_Null1 = c_Null col1, cr_Key1 = c_Key col1,
           cr_Default1 = c_Default col1, cr_Extra1 = c_Extra col1,
           cr_Type2 = ''N/A'', cr_Null2 = ''N/A'', cr_Key2 = ''N/A'',
           cr_Default2 = Some ''N/A'', cr_Extra2 = ''N/A'',
           cr_Difference = ''Column missing in Instance 2''\<rparr>]"
| "compare_column table col None (Some col2) =
     Inr [\<lparr>cr_Table = table, cr_Column = col, cr_Status = ''Only in Instance 2'',
           cr_Type1 = ''N/A'', cr_Null1 = ''N/A'', cr_Key1 = ''N/A'',
           cr_Default1 = Some ''N/A'', cr_Extra1 = ''N/A'',
           cr_Type2 = c_Type col2, cr_Null2 = c_Null col2, cr_Key2 = c_Key col2,
           cr_Default2 = c_Default col2, cr_Extra2 = c_Extra col2,
           cr_Difference = ''Column missing in Instance 1''\<rparr>]"
| "compare_column table col (Some col1) (Some col2) =
     (if differences col1 col2 \<noteq> []
      then Inr [\<lparr>cr_Table = table, cr_Column = col, cr_Status = ''Different'',
           cr_Type1 = c_Type col1, cr_Null1 = c_Null col1, cr_Key1 = c_Key col1,
           cr_Default1 = c_Default col1, cr_Extra1 = c_Extra col1,
           cr_Type2 = c_Type col2, cr_Null2 = c_Null col2, cr_Key2 = c_Key col2,
           cr_Default2 = c_Default col2, cr_Extra2 = c_Extra col2,
           cr_Difference = py_join '', '' (differences col1 col2)\<rparr>]
      else Inr [])"
| "compare_column table col None None = Inl TypeError"

text \<open>
  Running a list of steps that may raise: the first exception ends the loop, otherwise
  the appended records are concatenated in order.
\<close>

fun collect :: "(py_error + 'a list) list \<Rightarrow> py_error + 'a list" where
  "collect [] = Inr []"
| "collect (Inl e # rs) = Inl e"
| "collect (Inr xs # rs) = (case collect rs of Inl e \<Rightarrow> Inl e | Inr ys \<Rightarrow> Inr (xs @ ys))"

text \<open>
  \<open>table_column_report\<close> for one table whose two descriptor lists were fetched.
\<close>

definition all_columns :: "column list \<Rightarrow> column list \<Rightarrow> string set" where
  "all_columns columns1 columns2 = set (map c_Field columns1) \<union> set (map c_Field columns2)"

definition table_column_report :: "string \<Rightarrow> column list \<Rightarrow> column list
    \<Rightarrow> py_error + column_row list" where
  "table_column_report table columns1 columns2 =
     (let columns1_dict = columns_dict columns1;
          columns2_dict = columns_dict columns2
      in collect (map (\<lambda>col. compare_column table col (columns1_dict col) (columns2_dict col))
                      (sorted_list_of_set (all_columns columns1 columns2))))"

text \<open>
  One iteration of the loop over the common tables: the records it adds to
  \<open>column_reports\<close> and the lines it prints. \<open>table_has_differences\<close> is set exactly
  when a record is appended to \<open>table_column_report\<close>.
\<close>

definition compare_columns_table :: "conn \<Rightarrow> conn \<Rightarrow> string
    \<Rightarrow> py_error + (column_row list \<times> string list)" where
  "compare_columns_table conn1 conn2 table =
     (let (columns1, out1) = get_table_schema conn1 table;
          (columns2, out2) = get_table_schema conn2 table;
          out = [CHR 0x0A # ''Processing table: '' @ table] @ out1 @ out2
      in case (columns1, columns2) of
           (Some cols1, Some cols2) \<Rightarrow>
             (case table_column_report table cols1 cols2 of
                Inl e \<Rightarrow> Inl e
              | Inr report \<Rightarrow>
                  if report \<noteq> []
                  then Inr (report, out @ [''Found '' @ str_nat (length report)
                                   @ '' column differences in table '' @ table])
                  else Inr ([], out @ [''No column differences found in table '' @ table]))
         | _ \<Rightarrow> Inr ([], out @ [''Skipping column comparison for table '' @ table
                                  @ '' due to previous errors'']))"

text \<open>
  The loop of \<open>compare_columns\<close> over \<open>common_tables\<close>, in the order in which the
  argument is iterated: \<open>column_reports\<close>, \<open>tables_with_column_differences\<close> and the
  printed lines. An exception leaves the function at once (there is no handler in
  \<open>compare_columns\<close>).
\<close>

fun compare_columns_loop :: "conn \<Rightarrow> conn \<Rightarrow> string list
    \<Rightarrow> py_error + (column_row list \<times> nat \<times> string list)" where
  "compare_columns_loop conn1 conn2 [] = Inr ([], 0, [])"
| "compare_columns_loop conn1 conn2 (table # tables) =
     (case compare_columns_table conn1 conn2 table of
        Inl e \<Rightarrow> Inl e
      | Inr (report, out) \<Rightarrow>
          (case compare_columns_loop conn1 conn2 tables of
             Inl e \<Rightarrow> Inl e
           | Inr (reports, n, outs) \<Rightarrow>
               Inr (report @ reports, (if report \<noteq> [] then Suc n else n), out @ outs)))"

text \<open>
  \<open>compare_columns\<close>: the records written to \<open>2_column_comparison.csv\<close> (none when the
  list is empty) and the printed lines. \<open>report_dir\<close> is the directory of the run.
\<close>

definition compare_columns :: "string \<Rightarrow> conn \<Rightarrow> conn \<Rightarrow> string list
    \<Rightarrow> py_error + (column_row list \<times> string list)" where
  "compare_columns report_dir conn1 conn2 tables =
     (case compare_columns_loop conn1 conn2 tables of
        Inl e \<Rightarrow> Inl e
      | Inr (column_reports, tables_with_column_differences, out) \<Rightarrow>
          Inr (column_reports,
               [CHR 0x0A # ''=== Comparing table columns ===''] @ out @
               (if column_reports \<noteq> []
                then [CHR 0x0A # ''Found column differences in ''
                        @ str_nat tables_with_column_differences @ '' tables'',
                      ''Column comparison report saved to: '' @ report_dir
                        @ ''/2_column_comparison.csv'']
                else [CHR 0x0A # ''No column differences found in any tables.''])))"

section \<open>Row comparison: \<open>compare_row_data\<close>\<close>

subsection \<open>Cells\<close>

text \<open>
  \<open>pd.isna\<close>, the scalar comparison \<open>val1 == val2\<close> (\<open>NaN\<close> equals nothing, \<open>None\<close> equals
  \<open>None\<close>), the element of the series comparison \<open>col1 != col2\<close> (true as soon as one side
  is missing), and \<open>str\<close> of a cell. Integer columns that \<open>pandas\<close> turns into floating
  point are outside the model.
\<close>

definition pd_isna :: "pyval \<Rightarrow> bool" where
  "pd_isna v = (v = PNone \<or> v = PNaN)"

fun py_eq :: "pyval \<Rightarrow> pyval \<Rightarrow> bool" where
  "py_eq PNaN v = False"
| "py_eq v PNaN = False"
| "py_eq v w = (v = w)"

definition series_ne :: "pyval \<Rightarrow> pyval \<Rightarrow> bool" where
  "series_ne v w = (pd_isna v \<or> pd_isna w \<or> v \<noteq> w)"

fun py_str :: "pyval \<Rightarrow> string" where
  "py_str PNone = ''None''"
| "py_str PNaN = ''nan''"
| "py_str (PInt i) = str_int i"
| "py_str (PStr s) = s"

text \<open>
  \<open>str(e)\<close> of a caught exception. A \<open>KeyError\<close> carries the \<open>repr\<close> of the missing key;
  the message texts of the other errors are not modelled and stand as the class name.
\<close>

definition repr_str :: "string \<Rightarrow> string" where
  "repr_str s = CHR 0x27 # s @ [CHR 0x27]"

fun str_error :: "py_error \<Rightarrow> string" where
  "str_error (KeyError k) = k"
| "str_error TypeError = ''TypeError''"
| "str_error MergeError = ''MergeError''"
| "str_error ValueError = ''ValueError''"

subsection \<open>The outer join \<open>pd.merge(df1, df2, on=pk_columns, how='outer', suffixes=('_1', '_2'), indicator=True)\<close>\<close>

text \<open>
  The merged frame has the labels of \<open>df1\<close> in their order, then those of \<open>df2\<close> without
  the join keys; a label that is not a join key and occurs in both frames gets the
  suffix \<open>_1\<close> or \<open>_2\<close>. Each row carries the indicator \<open>_merge\<close>.
\<close>

datatype indicator = left_only | right_only | both

record merged =
  m_columns :: "string list"
  m_rows :: "(indicator \<times> pyval list) list"

definition left_labels :: "string list \<Rightarrow> string list \<Rightarrow> string list \<Rightarrow> string list" where
  "left_labels on cols1 cols2 =
     map (\<lambda>c. if c \<notin> set on \<and> c \<in> set cols2 then c @ ''_1'' else c) cols1"

definition right_labels :: "string list \<Rightarrow> string list \<Rightarrow> string list \<Rightarrow> string list" where
  "right_labels on cols1 cols2 =
     map (\<lambda>c. if c \<in> set cols1 then c @ ''_2'' else c) (filter (\<lambda>c. c \<notin> set on) cols2)"

text \<open>The values of the labels \<open>on\<close> in a row, and the cells of a right row without its keys.\<close>

definition row_key :: "string list \<Rightarrow> string list \<Rightarrow> pyval list \<Rightarrow> pyval list" where
  "row_key on cols row =
     map (\<lambda>k. case map_of (zip cols row) k of Some v \<Rightarrow> v | None \<Rightarrow> PNaN) on"

definition right_part :: "string list \<Rightarrow> string list \<Rightarrow> pyval list \<Rightarrow> pyval list" where
  "right_part on cols2 r = map snd (filter (\<lambda>(c, v). c \<notin> set on) (zip cols2 r))"

text \<open>
  An outer join sorts the join keys: integers by value, strings lexicographically,
  missing values last.
\<close>

fun key_rank :: "pyval \<Rightarrow> nat \<times> int \<times> string" where
  "key_rank (PInt i) = (0, i, [])"
| "key_rank (PStr s) = (1, 0, s)"
| "key_rank PNone = (2, 0, [])"
| "key_rank PNaN = (2, 0, [])"

text \<open>
  The rows of the join, key by key: a key of the left frame only gives its left rows
  with \<open>NaN\<close> in the right cells, a key of the right frame only gives its right rows with
  the key cells filled and \<open>NaN\<close> in the other left cells, and a key of both gives every
  pair of a left and a right row with that key.
\<close>

definition merge_rows :: "string list \<Rightarrow> dataframe \<Rightarrow> dataframe
    \<Rightarrow> (indicator \<times> pyval list) list" where
  "merge_rows on df1 df2 =
     (let cols1 = df_columns df1; cols2 = df_columns df2;
          keys = sort_key (map key_rank)
                   (remdups (map (row_key on cols1) (df_rows df1)
                             @ map (row_key on cols2) (df_rows df2)))
      in concat (map (\<lambda>k.
           let ls = filter (\<lambda>l. row_key on cols1 l = k) (df_rows df1);
               rs = filter (\<lambda>r. row_key on cols2 r = k) (df_rows df2)
           in if rs = [] then
                map (\<lambda>l. (left_only, l @ map (\<lambda>c. PNaN) (right_labels on cols1 cols2))) ls
              else if ls = [] then
                map (\<lambda>r. (right_only,
                       map (\<lambda>c. if c \<in> set on
                                then (case map_of (zip cols2 r) c of Some v \<Rightarrow> v | None \<Rightarrow> PNaN)
                                else PNaN) cols1
                       @ right_part on cols2 r)) rs
              else concat (map (\<lambda>l. map (\<lambda>r. (both, l @ right_part on cols2 r)) rs) ls)) keys))"

text \<open>
  \<open>pd.merge\<close> raises \<open>KeyError\<close> for a join key that one frame lacks, \<open>ValueError\<close> when a
  label is \<open>_merge\<close>, and \<open>MergeError\<close> when the suffixes produce a duplicate label (the
  model treats every duplicate label of the merged frame so).
\<close>

definition pd_merge :: "string list \<Rightarrow> dataframe \<Rightarrow> dataframe \<Rightarrow> py_error + merged" where
  "pd_merge on df1 df2 =
     (let cols1 = df_columns df1; cols2 = df_columns df2;
          labels = left_labels on cols1 cols2 @ right_labels on cols1 cols2
      in case filter (\<lambda>k. k \<notin> set cols1 \<or> k \<notin> set cols2) on of
           k # _ \<Rightarrow> Inl (KeyError (repr_str k))
         | [] \<Rightarrow>
             if ''_merge'' \<in> set (cols1 @ cols2) then Inl ValueError
             else if \<not> distinct labels then Inl MergeError
             else Inr \<lparr>m_columns = labels, m_rows = merge_rows on df1 df2\<rparr>)"

subsection \<open>The report of one table\<close>

text \<open>
  One entry of \<open>data_reports\<close>: the keys \<open>Table\<close>, \<open>Primary Key\<close>, \<open>Status\<close>, \<open>Column\<close>,
  \<open>Value (Instance 1)\<close>, \<open>Value (Instance 2)\<close>, \<open>Difference\<close>.
\<close>

record data_row =
  dr_Table :: string
  dr_PrimaryKey :: string
  dr_Status :: string
  dr_Column :: string
  dr_Value1 :: string
  dr_Value2 :: string
  dr_Difference :: string

text \<open>\<open>format_pk\<close> of the series \<open>row[pk_columns]\<close>.\<close>

definition format_pk :: "pyval list \<Rightarrow> string" where
  "format_pk pk_values = py_join '', '' (map py_str pk_values)"

text \<open>\<open>row[label]\<close> and \<open>frame[label]\<close>: a \<open>KeyError\<close> when the label is missing.\<close>

definition getitem :: "string list \<Rightarrow> pyval list \<Rightarrow> string \<Rightarrow> py_error + pyval" where
  "getitem labels row label =
     (case map_of (zip labels row) label of
        Some v \<Rightarrow> Inr v
      | None \<Rightarrow> Inl (KeyError (repr_str label)))"

definition data_columns :: "string list \<Rightarrow> dataframe \<Rightarrow> string list" where
  "data_columns pk_columns df1 = filter (\<lambda>col. col \<notin> set pk_columns) (df_columns df1)"

text \<open>
  One column's contribution to \<open>diff_mask\<close> at one row of \<open>in_both\<close>, and the mask itself:
  the disjunction over \<open>data_columns\<close>.
\<close>

definition cell_differs :: "string list \<Rightarrow> pyval list \<Rightarrow> string \<Rightarrow> bool" where
  "cell_differs labels row col =
     (case (getitem labels row (col @ ''_1''), getitem labels row (col @ ''_2'')) of
        (Inr col1, Inr col2) \<Rightarrow> series_ne col1 col2 \<and> \<not> (pd_isna col1 \<and> pd_isna col2)
      | _ \<Rightarrow> False)"

definition diff_mask :: "string list \<Rightarrow> string list \<Rightarrow> pyval list \<Rightarrow> bool" where
  "diff_mask labels cols row = (\<exists>col \<in> set cols. cell_differs labels row col)"

text \<open>The body of the loop over \<open>data_columns\<close> for one row of \<open>different_rows\<close>.\<close>

definition different_values :: "string \<Rightarrow> string list \<Rightarrow> string list \<Rightarrow> pyval list \<Rightarrow> string
    \<Rightarrow> data_row list" where
  "different_values table pk_columns labels row col =
     (case (getitem labels row (col @ ''_1''), getitem labels row (col @ ''_2'')) of
        (Inr val1, Inr val2) \<Rightarrow>
          if py_eq val1 val2 \<or> (pd_isna val1 \<and> pd_isna val2) then []
          else [\<lparr>dr_Table = table, dr_PrimaryKey = format_pk (row_key pk_columns labels row),
                  dr_Status = ''Different Values'', dr_Column = col,
                  dr_Value1 = py_str val1, dr_Value2 = py_str val2,
                  dr_Difference = ''Different values ('' @ py_str val1 @ '' vs ''
                                    @ py_str val2 @ '')''\<rparr>]
      | _ \<Rightarrow> [])"

text \<open>
  \<open>table_data_report\<close> of one table whose key and two frames were fetched, or the
  exception that leaves the \<open>try\<close> block. The labels \<open>col_1\<close> and \<open>col_2\<close> are looked up
  for every data column in turn; with no data column \<open>diff_mask\<close> is still the Python
  value \<open>False\<close>, and \<open>in_both[False]\<close> is a \<open>KeyError\<close>.
\<close>

definition table_data_report :: "string \<Rightarrow> string list \<Rightarrow> dataframe \<Rightarrow> dataframe
    \<Rightarrow> py_error + data_row list" where
  "table_data_report table pk_columns df1 df2 =
     (case pd_merge pk_columns df1 df2 of
        Inl e \<Rightarrow> Inl e
      | Inr merged \<Rightarrow>
          let labels = m_columns merged;
              only_in_instance1 = map snd (filter (\<lambda>(ind, row). ind = left_only) (m_rows merged));
              only_in_instance2 = map snd (filter (\<lambda>(ind, row). ind = right_only) (m_rows merged));
              in_both = map snd (filter (\<lambda>(ind, row). ind = both) (m_rows merged));
              cols = data_columns pk_columns df1
          in (case filter (\<lambda>label. label \<notin> set labels)
                    (concat (map (\<lambda>col. [col @ ''_1'', col @ ''_2'']) cols)) of
               label # _ \<Rightarrow> Inl (KeyError (repr_str label))
             | [] \<Rightarrow>
                 if cols = [] then Inl (KeyError ''False'')
                 else
                   let different_rows = filter (diff_mask labels cols) in_both
                   in Inr (map (\<lambda>row. \<lparr>dr_Table = table,
                                  dr_PrimaryKey = format_pk (row_key pk_columns labels row),
                                  dr_Status = ''Only in Instance 1'', dr_Column = ''ALL'',
                                  dr_Value1 = ''Exists'', dr_Value2 = ''Missing'',
                                  dr_Difference = ''Row missing in Instance 2''\<rparr>) only_in_instance1
                         @ map (\<lambda>row. \<lparr>dr_Table = table,
                                  dr_PrimaryKey = format_pk (row_key pk_columns labels row),
                                  dr_Status = ''Only in Instance 2'', dr_Column = ''ALL'',
                                  dr_Value1 = ''Missing'', dr_Value2 = ''Exists'',
                                  dr_Difference = ''Row missing in Instance 1''\<rparr>) only_in_instance2
                         @ concat (map (\<lambda>row. concat (map (different_values table pk_columns labels row) cols))
                                    different_rows))))"

subsection \<open>The loop over the common tables\<close>

text \<open>
  One iteration: the records added to \<open>data_reports\<close> and the lines printed. Only
  \<open>conn1\<close> is asked for the primary key. Every exception is caught inside the iteration.
\<close>

definition compare_row_data_table :: "conn \<Rightarrow> conn \<Rightarrow> string \<Rightarrow> data_row list \<times> string list" where
  "compare_row_data_table conn1 conn2 table =
     (let (pk_columns, out0) = get_primary_keys conn1 table;
          out = [CHR 0x0A # ''Processing table: '' @ table] @ out0
      in if pk_columns = []
         then ([], out @ [''Warning: Table '' @ table
                            @ '' has no primary key. Skipping data comparison.''])
         else
           let (df1, out1) = get_table_data conn1 table;
               (df2, out2) = get_table_data conn2 table;
               out = out @ out1 @ out2
           in (case (df1, df2) of
                 (Some d1, Some d2) \<Rightarrow>
                   (case table_data_report table pk_columns d1 d2 of
                      Inl e \<Rightarrow> ([], out @ [''Error comparing data in table '' @ table
                                              @ '': '' @ str_error e])
                    | Inr report \<Rightarrow>
                        if report \<noteq> []
                        then (report, out @ [''Found '' @ str_nat (length report)
                                               @ '' data differences in table '' @ table])
                        else ([], out @ [''No data differences found in table '' @ table]))
               | _ \<Rightarrow> ([], out @ [''Skipping data comparison for table '' @ table
                                      @ '' due to previous errors''])))"

fun compare_row_data_loop :: "conn \<Rightarrow> conn \<Rightarrow> string list
    \<Rightarrow> data_row list \<times> nat \<times> string list" where
  "compare_row_data_loop conn1 conn2 [] = ([], 0, [])"
| "compare_row_data_loop conn1 conn2 (table # tables) =
     (let (report, out) = compare_row_data_table conn1 conn2 table;
          (reports, n, outs) = compare_row_data_loop conn1 conn2 tables
      in (report @ reports, (if report \<noteq> [] then Suc n else n), out @ outs))"

definition compare_row_data :: "string \<Rightarrow> conn \<Rightarrow> conn \<Rightarrow> string list
    \<Rightarrow> data_row list \<times> string list" where
  "compare_row_data report_dir conn1 conn2 tables =
     (let (data_reports, tables_with_data_differences, out) =
            compare_row_data_loop conn1 conn2 tables
      in (data_reports,
          [CHR 0x0A # ''=== Comparing row data ===''] @ out @
          (if data_reports \<noteq> []
           then [CHR 0x0A # ''Found data differences in ''
                   @ str_nat tables_with_data_differences @ '' tables'',
                 ''Data comparison report saved to: '' @ report_dir
                   @ ''/3_data_comparison.csv'']
           else [CHR 0x0A # ''No row-level data differences found in any tables.''])))"

section \<open>The whole run: \<open>run_comparison\<close>\<close>

text \<open>
  \<open>common_tables\<close> is a Python \<open>set\<close> of strings; the order in which a \<open>for\<close> loop visits
  it is fixed by the interpreter run, not by the program. The run takes that order as
  the parameter \<open>iter\<close>. The two connections are taken as established. \<open>completed\<close> tells
  whether the run reached \<open>Comparison completed successfully\<close>; an exception out of
  \<open>compare_columns\<close> is caught by \<open>run_comparison\<close>, and the row comparison is then not run.
\<close>

record run_result =
  schema_records :: "table_row list"
  column_records :: "column_row list"
  data_records :: "data_row list"
  completed :: bool

definition run_comparison :: "(string set \<Rightarrow> string list) \<Rightarrow> string \<Rightarrow> conn \<Rightarrow> conn \<Rightarrow> run_result" where
  "run_comparison iter report_dir conn1 conn2 =
     (let (schema, common) = compare_schemas conn1 conn2
      in if common = {}
         then \<lparr>schema_records = schema, column_records = [], data_records = [], completed = True\<rparr>
         else
           (case compare_columns report_dir conn1 conn2 (iter common) of
              Inl e \<Rightarrow> \<lparr>schema_records = schema, column_records = [], data_records = [],
                         completed = False\<rparr>
            | Inr (column_reports, out) \<Rightarrow>
                \<lparr>schema_records = schema, column_records = column_reports,
                  data_records = fst (compare_row_data report_dir conn1 conn2 (iter common)),
                  completed = True\<rparr>))"

section \<open>Reading the table report\<close>

text \<open>
  The tables that a report records with the given presence in instance 1 and in
  instance 2 (\<open>'Present'\<close> or \<open>'Missing'\<close>, the values \<open>compare_schemas\<close> writes into the
  columns \<open>Instance 1\<close> and \<open>Instance 2\<close>).
\<close>

definition tables_reported :: "string \<Rightarrow> string \<Rightarrow> table_row list \<Rightarrow> string set" where
  "tables_reported presence1 presence2 report =
     tr_Table ` set (filter (\<lambda>r. tr_Instance1 r = presence1 \<and> tr_Instance2 r = presence2) report)"


section \<open>Well-formed frames\<close>



section \<open>The specification's wording of \<open>changedAspects\<close>\<close>

text \<open>
  The specification describes \<open>changedAspects\<close> as the differing aspects, each rendered as
  \<open>name(value1 vs value2)\<close>, joined in the fixed order type, nullable, key role, default,
  extra. This definition follows that wording, with the labels the program prints and the
  default rendered by \<open>str\<close>; it is compared with \<open>differences\<close> below.
\<close>

definition spec_changedAspects :: "column \<Rightarrow> column \<Rightarrow> string" where
  "spec_changedAspects col1 col2 =
     py_join '', ''
       (map (\<lambda>(name, value1, value2). name @ ''('' @ value1 @ '' vs '' @ value2 @ '')'')
            (filter (\<lambda>(name, value1, value2). value1 \<noteq> value2)
               [(''Type'', c_Type col1, c_Type col2),
                (''Null'', c_Null col1, c_Null col2),
                (''Key'', c_Key col1, c_Key col2),
                (''Default'', str_default (c_Default col1), str_default (c_Default col2)),
                (''Extra'', c_Extra col1, c_Extra col2)]))"

section \<open>The specification's wording of the row difference\<close>


section \<open>Example inputs\<close>

text \<open>The column \<open>email\<close> of table \<open>users\<close> on the two instances.\<close>

definition email1 :: column where "email1 = \<lparr>c_Field = ''email'', c_Type = ''varchar(255)'', c_Null = ''YES'', c_Key = '''', c_Default = None, c_Extra = ''''\<rparr>"
definition email2 :: column where "email2 = \<lparr>c_Field = ''email'', c_Type = ''varchar(100)'', c_Null = ''NO'', c_Key = '''', c_Default = None, c_Extra = ''''\<rparr>"

text \<open>
  A column without a default, as three servers may report it: \<open>None\<close>, the text \<open>NULL\<close>,
  and the text \<open>None\<close>.
\<close>

definition null_default1 :: column where "null_default1 = \<lparr>c_Field = ''note'', c_Type = ''text'', c_Null = ''YES'', c_Key = '''', c_Default = None, c_Extra = ''''\<rparr>"
definition null_default2 :: column where "null_default2 = \<lparr>c_Field = ''note'', c_Type = ''text'', c_Null = ''YES'', c_Key = '''', c_Default = Some ''NULL'', c_Extra = ''''\<rparr>"
definition none_default2 :: column where "none_default2 = \<lparr>c_Field = ''note'', c_Type = ''text'', c_Null = ''YES'', c_Key = '''', c_Default = Some ''None'', c_Extra = ''''\<rparr>"

definition users_cols :: "column list" where
  "users_cols = [\<lparr>c_Field = ''id'', c_Type = ''int'', c_Null = ''NO'', c_Key = ''PRI'', c_Default = None, c_Extra = ''auto_increment''\<rparr>, email1]"

definition users_conn :: conn where
  "users_conn = \<lparr>show_tables = Inr [''users''], show_columns = (\<lambda>t. Inr users_cols),
     show_keys = (\<lambda>t. Inr [''id'']), select_all = (\<lambda>t. Inl ''no data'')\<rparr>"

text \<open>Instance 1 holds the tables \<open>users\<close> and \<open>orders\<close>, instance 2 \<open>users\<close> and \<open>products\<close>.\<close>

definition shop_conn1 :: conn where
  "shop_conn1 = \<lparr>show_tables = Inr [''users'', ''orders''], show_columns = (\<lambda>t. Inr users_cols),
     show_keys = (\<lambda>t. Inr [''id'']), select_all = (\<lambda>t. Inl ''no data'')\<rparr>"

definition shop_conn2 :: conn where
  "shop_conn2 = \<lparr>show_tables = Inr [''users'', ''products''], show_columns = (\<lambda>t. Inr users_cols),
     show_keys = (\<lambda>t. Inr [''id'']), select_all = (\<lambda>t. Inl ''no data'')\<rparr>"

text \<open>
  The rows of table \<open>orders\<close> on the two instances: key 1 differs in \<open>status\<close>, key 2 is
  only in instance 1, key 3 has a null \<open>status\<close> on both sides, key 10 is only in instance 2.
\<close>

definition orders1 :: dataframe where
  "orders1 = \<lparr>df_columns = [''id'', ''status''],
     df_rows = [[PInt 1, PStr ''paid''], [PInt 2, PStr ''new''], [PInt 3, PNone]]\<rparr>"

definition orders2 :: dataframe where
  "orders2 = \<lparr>df_columns = [''id'', ''status''],
     df_rows = [[PInt 3, PNone], [PInt 1, PStr ''pending''], [PInt 10, PStr ''sent'']]\<rparr>"

text \<open>
  Two instances with the tables \<open>audit\<close>, \<open>logs\<close>, \<open>orders\<close> and \<open>users\<close>. On instance 1
  \<open>logs\<close> has no primary key, the key query of \<open>audit\<close> fails, the column query fails
  for every table but \<open>users\<close>, and only the rows of \<open>orders\<close> can be read.
\<close>

definition site_conn1 :: conn where
  "site_conn1 = \<lparr>show_tables = Inr [''audit'', ''logs'', ''orders'', ''users''],
     show_columns = (\<lambda>t. if t = ''users'' then Inr users_cols else Inl ''Lost connection''),
     show_keys = (\<lambda>t. if t = ''logs'' then Inr [] else if t = ''audit'' then Inl ''Lost connection''
                      else Inr [''id'']),
     select_all = (\<lambda>t. if t = ''orders'' then Inr orders1 else Inl ''Lost connection'')\<rparr>"

definition site_conn2 :: conn where
  "site_conn2 = \<lparr>show_tables = Inr [''audit'', ''logs'', ''orders'', ''users''],
     show_columns = (\<lambda>t. Inr users_cols),
     show_keys = (\<lambda>t. Inr [''id'']),
     select_all = (\<lambda>t. if t = ''orders'' then Inr orders2 else Inl ''Lost connection'')\<rparr>"

text \<open>
  Two instances that share the tables \<open>users\<close> and \<open>orders\<close>, each with a column \<open>email\<close>
  that differs between the instances.
\<close>

definition drift_conn1 :: conn where
  "drift_conn1 = \<lparr>show_tables = Inr [''users'', ''orders''], show_columns = (\<lambda>t. Inr [email1]),
     show_keys = (\<lambda>t. Inr []), select_all = (\<lambda>t. Inl ''no data'')\<rparr>"

definition drift_conn2 :: conn where
  "drift_conn2 = \<lparr>show_tables = Inr [''orders'', ''users''], show_columns = (\<lambda>t. Inr [email2]),
     show_keys = (\<lambda>t. Inr []), select_all = (\<lambda>t. Inl ''no data'')\<rparr>"






section \<open>Properties of the table set comparison\<close>

lemma tables_reported_append:
  "tables_reported p q (xs @ ys) = tables_reported p q xs \<union> tables_reported p q ys"
  by (auto simp: tables_reported_def)

lemma tables_reported_block:
  "tables_reported p q (map (\<lambda>t. \<lparr>tr_Table = t, tr_Instance1 = a, tr_Instance2 = b, tr_Difference = d\<rparr>) ts)
     = (if p = a \<and> q = b then set ts else {})"
  by (auto simp: tables_reported_def filter_map comp_def image_image)

lemma schema_report_groups:
  assumes "finite A" "finite B"
  shows "tables_reported ''Present'' ''Missing'' (schema_report A B) = A - B"
    and "tables_reported ''Missing'' ''Present'' (schema_report A B) = B - A"
    and "tables_reported ''Present'' ''Present'' (schema_report A B) = A \<inter> B"
  using assms
  by (simp_all add: schema_report_def tables_reported_append tables_reported_block
      only_in_instance1_def only_in_instance2_def common_tables_def)

lemma schema_report_distinct:
  assumes "finite A" "finite B"
  shows "distinct (map tr_Table (schema_report A B))"
  using assms
  by (auto simp: schema_report_def comp_def only_in_instance1_def only_in_instance2_def
      common_tables_def)

text \<open>
  Claim C5. Let \<open>A\<close> and \<open>B\<close> be the table names that \<open>get_tables\<close> returns for instance 1
  and instance 2. In the report that \<open>compare_schemas\<close> emits, the tables recorded as
  present only in instance 1 are exactly \<open>A - B\<close>, those recorded as present only in
  instance 2 are exactly \<open>B - A\<close>, and those recorded as present in both are exactly
  \<open>A \<inter> B\<close>, which is also the set of common tables that \<open>compare_schemas\<close> returns. The
  three groups of the report cover exactly \<open>A \<union> B\<close> and are pairwise disjoint; the report
  names no other table and names each table once. (When both instances have no table the
  method returns early with an empty report and no common table, and all of this holds
  with every set empty.)
\<close>

theorem compare_schemas_partition:
  fixes conn1 conn2 :: conn
  defines "A \<equiv> set (fst (get_tables conn1))" and "B \<equiv> set (fst (get_tables conn2))"
    and "report \<equiv> fst (compare_schemas conn1 conn2)"
  shows "tables_reported ''Present'' ''Missing'' report = A - B
     \<and> tables_reported ''Missing'' ''Present'' report = B - A
     \<and> tables_reported ''Present'' ''Present'' report = A \<inter> B
     \<and> snd (compare_schemas conn1 conn2) = tables_reported ''Present'' ''Present'' report
     \<and> tables_reported ''Present'' ''Missing'' report \<union> tables_reported ''Missing'' ''Present'' report
         \<union> tables_reported ''Present'' ''Present'' report = A \<union> B
     \<and> tables_reported ''Present'' ''Missing'' report \<inter> tables_reported ''Missing'' ''Present'' report = {}
     \<and> tables_reported ''Present'' ''Missing'' report \<inter> tables_reported ''Present'' ''Present'' report = {}
     \<and> tables_reported ''Missing'' ''Present'' report \<inter> tables_reported ''Present'' ''Present'' report = {}
     \<and> tr_Table ` set report = A \<union> B
     \<and> distinct (map tr_Table report)"
proof (cases "A = {} \<and> B = {}")
  case True
  then have "compare_schemas conn1 conn2 = ([], {})"
    by (simp add: compare_schemas_def A_def B_def)
  with True show ?thesis by (simp add: report_def tables_reported_def)
next
  case False
  have fin: "finite A" "finite B" by (simp_all add: A_def B_def)
  from False have c: "compare_schemas conn1 conn2 = (schema_report A B, common_tables A B)"
    by (auto simp: compare_schemas_def A_def B_def Let_def)
  then have r: "report = schema_report A B" by (simp add: report_def)
  note g = schema_report_groups [OF fin]
  have all: "tr_Table ` set (schema_report A B) = A \<union> B"
    using fin by (auto simp: schema_report_def only_in_instance1_def only_in_instance2_def
        common_tables_def image_Un image_image)
  show ?thesis
    unfolding r g using c all schema_report_distinct [OF fin]
    by (auto simp: common_tables_def)
qed

theorem compare_schemas_partition_witness:
  "tables_reported ''Present'' ''Missing'' (fst (compare_schemas shop_conn1 shop_conn2)) = {''orders''}
   \<and> tables_reported ''Missing'' ''Present'' (fst (compare_schemas shop_conn1 shop_conn2)) = {''products''}
   \<and> tables_reported ''Present'' ''Present'' (fst (compare_schemas shop_conn1 shop_conn2)) = {''users''}
   \<and> snd (compare_schemas shop_conn1 shop_conn2) = {''users''}"
proof -
  have a: "set (fst (get_tables shop_conn1)) - set (fst (get_tables shop_conn2)) = {''orders''}"
    by (simp add: get_tables_def shop_conn1_def shop_conn2_def)
  have b: "set (fst (get_tables shop_conn2)) - set (fst (get_tables shop_conn1)) = {''products''}"
    by (simp add: get_tables_def shop_conn1_def shop_conn2_def)
  have c: "set (fst (get_tables shop_conn1)) \<inter> set (fst (get_tables shop_conn2)) = {''users''}"
    by (simp add: get_tables_def shop_conn1_def shop_conn2_def)
  note w = compare_schemas_partition [of shop_conn1 shop_conn2]
  note w1 = conjunct1 [OF w]
  note w2 = conjunct1 [OF conjunct2 [OF w]]
  note w3 = conjunct1 [OF conjunct2 [OF conjunct2 [OF w]]]
  note w4 = conjunct1 [OF conjunct2 [OF conjunct2 [OF conjunct2 [OF w]]]]
  show ?thesis
    unfolding w4 unfolding w1 w2 w3 a b c by (intro conjI refl)
qed

text \<open>
  Claim C7. The table-level report consists of three consecutive blocks: the tables only
  in instance 1, then the tables only in instance 2, then the common tables; each block
  holds exactly the tables of its group, once each, in ascending order of the name.
\<close>

theorem schema_report_order:
  fixes conn1 conn2 :: conn
  defines "A \<equiv> set (fst (get_tables conn1))" and "B \<equiv> set (fst (get_tables conn2))"
  shows "\<exists>xs ys zs. fst (compare_schemas conn1 conn2) = xs @ ys @ zs
     \<and> tr_Table ` set xs = A - B \<and> sorted_wrt (<) (map tr_Table xs)
     \<and> (\<forall>r \<in> set xs. tr_Instance1 r = ''Present'' \<and> tr_Instance2 r = ''Missing'')
     \<and> tr_Table ` set ys = B - A \<and> sorted_wrt (<) (map tr_Table ys)
     \<and> (\<forall>r \<in> set ys. tr_Instance1 r = ''Missing'' \<and> tr_Instance2 r = ''Present'')
     \<and> tr_Table ` set zs = A \<inter> B \<and> sorted_wrt (<) (map tr_Table zs)
     \<and> (\<forall>r \<in> set zs. tr_Instance1 r = ''Present'' \<and> tr_Instance2 r = ''Present'')"
proof (cases "A = {} \<and> B = {}")
  case True
  then have "fst (compare_schemas conn1 conn2) = [] @ [] @ []"
    by (simp add: compare_schemas_def A_def B_def)
  with True show ?thesis by (intro exI[of _ "[]"]) simp
next
  case False
  have fin: "finite (A - B)" "finite (B - A)" "finite (A \<inter> B)" by (simp_all add: A_def B_def)
  from False have "fst (compare_schemas conn1 conn2) = schema_report A B"
    by (auto simp: compare_schemas_def A_def B_def Let_def)
  then show ?thesis
    unfolding schema_report_def only_in_instance1_def only_in_instance2_def common_tables_def
    apply (intro exI conjI)
             apply assumption
    using fin by (simp_all add: comp_def image_image)
qed

theorem schema_report_order_witness:
  "(\<exists>xs ys zs. fst (compare_schemas shop_conn1 shop_conn2) = xs @ ys @ zs
     \<and> tr_Table ` set xs = {''orders''} \<and> tr_Table ` set ys = {''products''}
     \<and> tr_Table ` set zs = {''users''})
   \<and> map tr_Table (fst (compare_schemas shop_conn1 shop_conn2)) = [''orders'', ''products'', ''users'']"
proof -
  have a: "set (fst (get_tables shop_conn1)) - set (fst (get_tables shop_conn2)) = {''orders''}"
    by (simp add: get_tables_def shop_conn1_def shop_conn2_def)
  have b: "set (fst (get_tables shop_conn2)) - set (fst (get_tables shop_conn1)) = {''products''}"
    by (simp add: get_tables_def shop_conn1_def shop_conn2_def)
  have c: "set (fst (get_tables shop_conn1)) \<inter> set (fst (get_tables shop_conn2)) = {''users''}"
    by (simp add: get_tables_def shop_conn1_def shop_conn2_def)
  have m: "map tr_Table (fst (compare_schemas shop_conn1 shop_conn2)) = [''orders'', ''products'', ''users'']"
    by (simp add: compare_schemas_def shop_conn1_def shop_conn2_def get_tables_def
        schema_report_def only_in_instance1_def only_in_instance2_def common_tables_def)
  from schema_report_order [of shop_conn1 shop_conn2]
  obtain xs ys zs where "fst (compare_schemas shop_conn1 shop_conn2) = xs @ ys @ zs"
    "tr_Table ` set xs = set (fst (get_tables shop_conn1)) - set (fst (get_tables shop_conn2))"
    "tr_Table ` set ys = set (fst (get_tables shop_conn2)) - set (fst (get_tables shop_conn1))"
    "tr_Table ` set zs = set (fst (get_tables shop_conn1)) \<inter> set (fst (get_tables shop_conn2))"
    by (elim exE conjE)
  then have "\<exists>xs ys zs. fst (compare_schemas shop_conn1 shop_conn2) = xs @ ys @ zs
     \<and> tr_Table ` set xs = {''orders''} \<and> tr_Table ` set ys = {''products''}
     \<and> tr_Table ` set zs = {''users''}"
    unfolding a b c by (intro exI conjI)
  with m show ?thesis by (intro conjI)
qed

section \<open>Properties of the column comparison\<close>

lemma collect_all_Inr:
  "(\<And>r. r \<in> set rs \<Longrightarrow> \<exists>v. r = Inr v) \<Longrightarrow> collect rs = Inr (concat (map projr rs))"
proof (induction rs)
  case Nil
  then show ?case by simp
next
  case (Cons r rs)
  then obtain v where "r = Inr v" by auto
  with Cons show ?case by simp
qed

lemma columns_dict_foldl_dom:
  "dom (foldl (\<lambda>d col. d(c_Field col \<mapsto> col)) d0 columns) = dom d0 \<union> set (map c_Field columns)"
  by (induction columns arbitrary: d0) auto

lemma dom_columns_dict: "dom (columns_dict columns) = set (map c_Field columns)"
  by (simp add: columns_dict_def columns_dict_foldl_dom)

lemma compare_column_total:
  "d1 col \<noteq> None \<or> d2 col \<noteq> None \<Longrightarrow> \<exists>v. compare_column table col (d1 col) (d2 col) = Inr v"
  by (cases "d1 col"; cases "d2 col") auto

lemma table_column_report_eq:
  "table_column_report table columns1 columns2 =
     Inr (concat (map (\<lambda>col. projr (compare_column table col (columns_dict columns1 col) (columns_dict columns2 col)))
        (sorted_list_of_set (all_columns columns1 columns2))))"
proof -
  have fin: "finite (all_columns columns1 columns2)" by (simp add: all_columns_def)
  have "\<exists>v. compare_column table col (columns_dict columns1 col) (columns_dict columns2 col) = Inr v"
    if "col \<in> all_columns columns1 columns2" for col
  proof -
    from that have "col \<in> dom (columns_dict columns1) \<or> col \<in> dom (columns_dict columns2)"
      by (simp add: all_columns_def dom_columns_dict)
    then show ?thesis by (intro compare_column_total) auto
  qed
  then show ?thesis
    unfolding table_column_report_def Let_def
    by (subst collect_all_Inr) (auto simp: fin comp_def)
qed

lemma compare_column_same: "compare_column table col (Some c) (Some c) = Inr []"
  by (simp add: differences_def)

lemma compare_column_same_dict:
  "col \<in> dom d \<Longrightarrow> projr (compare_column table col (d col) (d col)) = []"
  by (auto simp: differences_def)

lemma table_column_report_same: "table_column_report table columns columns = Inr []"
  by (simp add: table_column_report_eq all_columns_def dom_columns_dict compare_column_same_dict)

lemma differences_nonempty_iff:
  "differences col1 col2 \<noteq> [] \<longleftrightarrow>
     c_Type col1 \<noteq> c_Type col2 \<or> c_Null col1 \<noteq> c_Null col2 \<or> c_Key col1 \<noteq> c_Key col2
     \<or> str_default (c_Default col1) \<noteq> str_default (c_Default col2) \<or> c_Extra col1 \<noteq> c_Extra col2"
  by (simp add: differences_def)

lemma differences_spec:
  "py_join '', '' (differences col1 col2) = spec_changedAspects col1 col2"
  by (simp add: differences_def spec_changedAspects_def)

lemma compare_column_record:
  assumes "compare_column table col o1 o2 = Inr rs" "r \<in> set rs"
  shows "cr_Table r = table \<and> cr_Column r = col \<and>
     ((cr_Status r = ''Only in Instance 1'' \<and> o1 \<noteq> None \<and> o2 = None)
      \<or> (cr_Status r = ''Only in Instance 2'' \<and> o1 = None \<and> o2 \<noteq> None)
      \<or> (cr_Status r = ''Different'' \<and> (\<exists>c1 c2. o1 = Some c1 \<and> o2 = Some c2 \<and>
            (c_Type c1 \<noteq> c_Type c2 \<or> c_Null c1 \<noteq> c_Null c2 \<or> c_Key c1 \<noteq> c_Key c2
             \<or> c_Default c1 \<noteq> c_Default c2 \<or> c_Extra c1 \<noteq> c_Extra c2))))"
proof (cases o1)
  case None
  with assms show ?thesis by (cases o2) auto
next
  case (Some c1)
  show ?thesis
  proof (cases o2)
    case None
    with Some assms show ?thesis by auto
  next
    case (Some c2)
    with \<open>o1 = Some c1\<close> assms have d: "differences c1 c2 \<noteq> []" and r: "rs = [r]"
      by (auto split: if_splits)
    from d have "c_Type c1 \<noteq> c_Type c2 \<or> c_Null c1 \<noteq> c_Null c2 \<or> c_Key c1 \<noteq> c_Key c2
             \<or> c_Default c1 \<noteq> c_Default c2 \<or> c_Extra c1 \<noteq> c_Extra c2"
      by (auto simp: differences_nonempty_iff)
    with Some \<open>o1 = Some c1\<close> assms show ?thesis by (auto split: if_splits)
  qed
qed

lemma table_column_report_records:
  assumes "table_column_report table cols1 cols2 = Inr report" "r \<in> set report"
  shows "cr_Table r = table \<and>
     ((cr_Status r = ''Only in Instance 1'' \<and> cr_Column r \<in> set (map c_Field cols1)
         \<and> cr_Column r \<notin> set (map c_Field cols2))
      \<or> (cr_Status r = ''Only in Instance 2'' \<and> cr_Column r \<notin> set (map c_Field cols1)
         \<and> cr_Column r \<in> set (map c_Field cols2))
      \<or> (cr_Status r = ''Different'' \<and> (\<exists>c1 c2. columns_dict cols1 (cr_Column r) = Some c1
            \<and> columns_dict cols2 (cr_Column r) = Some c2 \<and>
            (c_Type c1 \<noteq> c_Type c2 \<or> c_Null c1 \<noteq> c_Null c2 \<or> c_Key c1 \<noteq> c_Key c2
             \<or> c_Default c1 \<noteq> c_Default c2 \<or> c_Extra c1 \<noteq> c_Extra c2))))"
proof -
  have fin: "finite (all_columns cols1 cols2)" by (simp add: all_columns_def)
  from assms(1) have "report = concat (map (\<lambda>col. projr (compare_column table col
      (columns_dict cols1 col) (columns_dict cols2 col))) (sorted_list_of_set (all_columns cols1 cols2)))"
    by (simp add: table_column_report_eq)
  with assms(2) fin obtain col where col: "col \<in> all_columns cols1 cols2"
    and r: "r \<in> set (projr (compare_column table col (columns_dict cols1 col) (columns_dict cols2 col)))"
    by auto
  from col have "columns_dict cols1 col \<noteq> None \<or> columns_dict cols2 col \<noteq> None"
    using dom_columns_dict[of cols1] dom_columns_dict[of cols2] by (auto simp: all_columns_def)
  from compare_column_total[of "columns_dict cols1" col "columns_dict cols2", OF this]
  obtain rs where rs: "compare_column table col (columns_dict cols1 col) (columns_dict cols2 col) = Inr rs"
    by blast
  with r have "r \<in> set rs" by simp
  from compare_column_record[OF rs this] show ?thesis
    using dom_columns_dict[of cols1] dom_columns_dict[of cols2]
    by (auto simp: domIff)
qed

text \<open>
  Claim C8. For a common table whose descriptor lists were fetched from both instances,
  the column comparison of that table ends normally; with identical descriptor lists it
  adds no record; and every record it adds is for a column absent on one side or for a
  column whose two descriptors differ in at least one attribute.
\<close>

theorem identical_columns_no_records:
  assumes "show_columns conn1 table = Inr cols1" "show_columns conn2 table = Inr cols2"
  shows "\<exists>report out. compare_columns_table conn1 conn2 table = Inr (report, out)
     \<and> (cols1 = cols2 \<longrightarrow> report = [])
     \<and> (\<forall>r \<in> set report.
          (cr_Status r = ''Only in Instance 1'' \<and> cr_Column r \<in> set (map c_Field cols1)
             \<and> cr_Column r \<notin> set (map c_Field cols2))
        \<or> (cr_Status r = ''Only in Instance 2'' \<and> cr_Column r \<notin> set (map c_Field cols1)
             \<and> cr_Column r \<in> set (map c_Field cols2))
        \<or> (cr_Status r = ''Different'' \<and> (\<exists>c1 c2. columns_dict cols1 (cr_Column r) = Some c1
            \<and> columns_dict cols2 (cr_Column r) = Some c2 \<and>
            (c_Type c1 \<noteq> c_Type c2 \<or> c_Null c1 \<noteq> c_Null c2 \<or> c_Key c1 \<noteq> c_Key c2
             \<or> c_Default c1 \<noteq> c_Default c2 \<or> c_Extra c1 \<noteq> c_Extra c2))))"
proof -
  obtain report where rep: "table_column_report table cols1 cols2 = Inr report"
    by (simp add: table_column_report_eq)
  have same: "cols1 = cols2 \<longrightarrow> report = []"
    using rep by (auto simp: table_column_report_same)
  have "\<exists>out. compare_columns_table conn1 conn2 table = Inr (report, out)"
    using assms rep by (cases "report = []") (simp_all add: compare_columns_table_def get_table_schema_def Let_def)
  with same table_column_report_records[OF rep] show ?thesis by blast
qed

theorem identical_columns_no_records_witness:
  "show_columns users_conn ''users'' = Inr users_cols
   \<and> (\<exists>out. compare_columns_table users_conn users_conn ''users'' = Inr ([], out))"
proof -
  have h: "show_columns users_conn ''users'' = Inr users_cols" by (simp add: users_conn_def)
  from identical_columns_no_records [OF h h] h show ?thesis by auto
qed

text \<open>
  Claim C1, as the specification states it, fails: a default \<open>None\<close> on one side and the
  text \<open>NULL\<close> on the other, all else equal, gives one record whose \<open>Difference\<close> is
  \<open>Default(None vs NULL)\<close>.
\<close>

theorem null_encodings_counterexample:
  "c_Field null_default1 = c_Field null_default2 \<and> c_Type null_default1 = c_Type null_default2
   \<and> c_Null null_default1 = c_Null null_default2 \<and> c_Key null_default1 = c_Key null_default2
   \<and> c_Extra null_default1 = c_Extra null_default2
   \<and> c_Default null_default1 = None \<and> c_Default null_default2 = Some ''NULL''
   \<and> map cr_Difference (projr (table_column_report ''notes'' [null_default1] [null_default2]))
       = [''Default(None vs NULL)'']"
  by (simp add: table_column_report_def all_columns_def columns_dict_def differences_def
      null_default1_def null_default2_def)

text \<open>
  Claim C1, amended. For two descriptors of a column that agree in type, nullability, key
  role and extra, no record is emitted exactly when the \<open>str\<close> renderings of the two
  defaults are equal, where a null default renders as the text \<open>None\<close>.
\<close>

theorem default_only_difference:
  assumes "c_Type col1 = c_Type col2" "c_Null col1 = c_Null col2" "c_Key col1 = c_Key col2"
    "c_Extra col1 = c_Extra col2"
  shows "compare_column table col (Some col1) (Some col2) = Inr []
         \<longleftrightarrow> str_default (c_Default col1) = str_default (c_Default col2)"
  using assms by (simp add: differences_nonempty_iff)

theorem default_only_difference_witness:
  "c_Type null_default1 = c_Type none_default2 \<and> c_Null null_default1 = c_Null none_default2
   \<and> c_Key null_default1 = c_Key none_default2 \<and> c_Extra null_default1 = c_Extra none_default2
   \<and> c_Default null_default1 \<noteq> c_Default none_default2
   \<and> compare_column ''notes'' ''note'' (Some null_default1) (Some none_default2) = Inr []"
  using default_only_difference [of null_default1 none_default2 "''notes''" "''note''"]
  by (simp add: null_default1_def none_default2_def)

text \<open>
  Claim C4, as the specification states it, fails on its own example: the aspect label
  the program prints for nullability is \<open>Null\<close>, not \<open>Nullable\<close>.
\<close>

theorem nullable_label_counterexample:
  "map cr_Difference (projr (table_column_report ''users'' [email1] [email2]))
     = [''Type(varchar(255) vs varchar(100)), Null(YES vs NO)'']
   \<and> map cr_Difference (projr (table_column_report ''users'' [email1] [email2]))
     \<noteq> [''Type(varchar(255) vs varchar(100)), Nullable(YES vs NO)'']"
  by (simp add: table_column_report_def all_columns_def columns_dict_def differences_def
      email1_def email2_def)

text \<open>
  Claim C4, amended. For a column present on both instances whose descriptors differ in
  type, nullability, key role, default (as rendered by \<open>str\<close>) or extra, exactly one record
  with status \<open>Different\<close> is emitted, and its \<open>Difference\<close> field lists each differing aspect
  as \<open>label(value1 vs value2)\<close>, joined by a comma and a space, in the fixed order with the
  labels \<open>Type\<close>, \<open>Null\<close>, \<open>Key\<close>, \<open>Default\<close>, \<open>Extra\<close>.
\<close>

theorem changed_aspects_order:
  assumes "c_Type col1 \<noteq> c_Type col2 \<or> c_Null col1 \<noteq> c_Null col2 \<or> c_Key col1 \<noteq> c_Key col2
     \<or> str_default (c_Default col1) \<noteq> str_default (c_Default col2) \<or> c_Extra col1 \<noteq> c_Extra col2"
  shows "\<exists>r. compare_column table col (Some col1) (Some col2) = Inr [r]
     \<and> cr_Table r = table \<and> cr_Column r = col \<and> cr_Status r = ''Different''
     \<and> cr_Difference r = spec_changedAspects col1 col2"
  using assms by (simp add: differences_nonempty_iff differences_spec)

theorem changed_aspects_order_witness:
  "c_Type email1 \<noteq> c_Type email2
   \<and> (\<exists>r. compare_column ''users'' ''email'' (Some email1) (Some email2) = Inr [r]
        \<and> cr_Status r = ''Different''
        \<and> cr_Difference r = ''Type(varchar(255) vs varchar(100)), Null(YES vs NO)'')"
proof -
  have ne: "c_Type email1 \<noteq> c_Type email2" by (simp add: email1_def email2_def)
  have sp: "spec_changedAspects email1 email2 = ''Type(varchar(255) vs varchar(100)), Null(YES vs NO)''"
    by (simp add: spec_changedAspects_def email1_def email2_def)
  from changed_aspects_order [of email1 email2 "''users''" "''email''"] ne sp
  show ?thesis by auto
qed


section \<open>Properties of the iteration over the common tables\<close>












section \<open>Properties of the row comparison\<close>



text \<open>
  Claim C10. The row comparison is the same whatever instance 2 answers to the key query:
  replacing \<open>show_keys\<close> of instance 2 by any other function changes neither the records
  nor the printed lines of \<open>compare_row_data\<close>. For a table whose key and rows were fetched,
  the records are those of \<open>table_data_report\<close> joined on the key of instance 1. (The
  \<open>Key\<close> attribute of \<open>SHOW COLUMNS\<close>, which the column comparison reports, is a different
  query.)
\<close>


theorem row_join_uses_instance1_key_only:
  "compare_row_data report_dir conn1 (conn2\<lparr>show_keys := keys2\<rparr>) tables
     = compare_row_data report_dir conn1 conn2 tables
   \<and> (\<forall>table d1 d2 pk. get_primary_keys conn1 table = (pk, []) \<and> pk \<noteq> []
        \<and> select_all conn1 table = Inr d1 \<and> select_all conn2 table = Inr d2
        \<longrightarrow> fst (compare_row_data_table conn1 conn2 table)
              = (case table_data_report table pk d1 d2 of Inl e \<Rightarrow> [] | Inr report \<Rightarrow> report))"
proof -
  have g: "get_table_data (conn2\<lparr>show_keys := keys2\<rparr>) = get_table_data conn2"
    by (simp add: get_table_data_def fun_eq_iff)
  have t: "compare_row_data_table conn1 (conn2\<lparr>show_keys := keys2\<rparr>) table
      = compare_row_data_table conn1 conn2 table" for table
    unfolding compare_row_data_table_def g ..
  have "compare_row_data_loop conn1 (conn2\<lparr>show_keys := keys2\<rparr>) tables
      = compare_row_data_loop conn1 conn2 tables"
    by (induction tables) (simp_all add: t)
  then have a: "compare_row_data report_dir conn1 (conn2\<lparr>show_keys := keys2\<rparr>) tables
     = compare_row_data report_dir conn1 conn2 tables"
    by (simp add: compare_row_data_def)
  have b: "fst (compare_row_data_table conn1 conn2 table)
              = (case table_data_report table pk d1 d2 of Inl e \<Rightarrow> [] | Inr report \<Rightarrow> report)"
    if "get_primary_keys conn1 table = (pk, [])" "pk \<noteq> []"
       "select_all conn1 table = Inr d1" "select_all conn2 table = Inr d2" for table d1 d2 pk
    using that
  proof (cases "table_data_report table pk d1 d2")
    case (Inl e)
    with that show ?thesis by (simp add: compare_row_data_table_def get_table_data_def)
  next
    case (Inr report)
    with that show ?thesis
      by (cases "report = []") (simp_all add: compare_row_data_table_def get_table_data_def Let_def)
  qed
  from a b show ?thesis by blast
qed

theorem row_join_uses_instance1_key_only_witness:
  "compare_row_data ''reports'' site_conn1 (site_conn2\<lparr>show_keys := (\<lambda>t. Inr [''status''])\<rparr>) [''orders'']
     = compare_row_data ''reports'' site_conn1 site_conn2 [''orders'']
   \<and> get_primary_keys site_conn1 ''orders'' = ([''id''], []) \<and> [''id''] \<noteq> []
   \<and> select_all site_conn1 ''orders'' = Inr orders1 \<and> select_all site_conn2 ''orders'' = Inr orders2
   \<and> fst (compare_row_data_table site_conn1 site_conn2 ''orders'')
       = (case table_data_report ''orders'' [''id''] orders1 orders2 of Inl e \<Rightarrow> [] | Inr report \<Rightarrow> report)"
proof -
  have h: "get_primary_keys site_conn1 ''orders'' = ([''id''], []) \<and> [''id''] \<noteq> []
        \<and> select_all site_conn1 ''orders'' = Inr orders1 \<and> select_all site_conn2 ''orders'' = Inr orders2"
    by (simp add: site_conn1_def site_conn2_def get_primary_keys_def)
  note w = row_join_uses_instance1_key_only [where report_dir = "''reports''"
      and ?conn1.0 = site_conn1 and ?conn2.0 = site_conn2 and ?keys2.0 = "\<lambda>t. Inr [''status'']"
      and tables = "[''orders'']"]
  from mp [OF spec [OF spec [OF spec [OF spec [OF conjunct2 [OF w]]]]] h]
  have r: "fst (compare_row_data_table site_conn1 site_conn2 ''orders'')
       = (case table_data_report ''orders'' [''id''] orders1 orders2 of Inl e \<Rightarrow> [] | Inr report \<Rightarrow> report)" .
  note h1 = conjunct1 [OF h]
  note h2 = conjunct1 [OF conjunct2 [OF h]]
  note h3 = conjunct1 [OF conjunct2 [OF conjunct2 [OF h]]]
  note h4 = conjunct2 [OF conjunct2 [OF conjunct2 [OF h]]]
  from conjunct1 [OF w] h1 h2 h3 h4 r show ?thesis by (intro conjI)
qed




subsection \<open>Cells with different values\<close>
























section \<open>The order in which the common tables are visited\<close>

text \<open>
  Claim C2. \<open>compare_schemas\<close> returns the common tables as a set, and the column and row
  comparisons visit it with \<open>for table in common_tables\<close>, without the \<open>sorted\<close> that
  \<open>compare_schemas\<close> and the loop over the columns of a table apply. The order of a set of
  strings depends on the hash seed of the interpreter run. On two instances that share the
  tables \<open>orders\<close> and \<open>users\<close>, each with a differing column, the two orders in which the
  set can be visited give the column records in two different orders.
\<close>


theorem column_records_follow_set_iteration:
  "snd (compare_schemas drift_conn1 drift_conn2) = set [''orders'', ''users'']
   \<and> snd (compare_schemas drift_conn1 drift_conn2) = set [''users'', ''orders'']
   \<and> map cr_Table (column_records
         (run_comparison (\<lambda>common. [''orders'', ''users'']) ''reports'' drift_conn1 drift_conn2))
       = [''orders'', ''users'']
   \<and> map cr_Table (column_records
         (run_comparison (\<lambda>common. [''users'', ''orders'']) ''reports'' drift_conn1 drift_conn2))
       = [''users'', ''orders'']"
proof -
  have s: "compare_schemas drift_conn1 drift_conn2
      = (schema_report {''users'', ''orders''} {''orders'', ''users''}, {''orders'', ''users''})"
    by (auto simp: compare_schemas_def get_tables_def drift_conn1_def drift_conn2_def Let_def
        common_tables_def)
  have r: "table_column_report table [email1] [email2]
      = Inr [\<lparr>cr_Table = table, cr_Column = ''email'', cr_Status = ''Different'',
               cr_Type1 = ''varchar(255)'', cr_Null1 = ''YES'', cr_Key1 = [],
               cr_Default1 = None, cr_Extra1 = [], cr_Type2 = ''varchar(100)'',
               cr_Null2 = ''NO'', cr_Key2 = [], cr_Default2 = None, cr_Extra2 = [],
               cr_Difference = ''Type(varchar(255) vs varchar(100)), Null(YES vs NO)''\<rparr>]" for table
    by (simp add: table_column_report_def all_columns_def columns_dict_def differences_def
        email1_def email2_def)
  show ?thesis
    unfolding run_comparison_def s
    by (simp add: compare_columns_def compare_columns_table_def
        get_table_schema_def drift_conn1_def drift_conn2_def r Let_def insert_commute)
qed

end
